theory Spec2Isabelle
  imports Complex_Main "HOL-Library.Word"
begin

unbundle bit_operations_syntax

section \<open>Summary Calculator\<close>







section \<open>Codec\<close>

text \<open>
  A Python float is an IEEE 754 binary64 value; it is modelled by its 64-bit pattern.
  \<open>struct.pack('<d', v)\<close> lays the pattern out in eight bytes, least significant
  first, and \<open>struct.unpack('<d', x)\<close> raises unless \<open>x\<close> has exactly eight bytes.
\<close>

type_synonym byte = "8 word"
type_synonym double = "64 word"

datatype error =
    MalformedPayload
  | ValidationError
  | MultipleResultsFound
  | RedisError
  | StoreFailure

definition pack_d :: "double \<Rightarrow> byte list" where
  "pack_d w = map (\<lambda>i. ucast (drop_bit (8 * i) w)) [0..<8]"

definition unpack_d :: "byte list \<Rightarrow> double option" where
  "unpack_d x =
     (if length x = 8
      then Some (foldr (\<lambda>b acc. push_bit 8 acc OR ucast b) x 0)
      else None)"

text \<open>
  Standard base64 (\<open>base64.b64encode\<close>): three bytes become four characters of the
  alphabet \<open>A-Z a-z 0-9 + /\<close>; a last group of one or two bytes is padded with \<open>=\<close>.
\<close>

definition b64_char :: "nat \<Rightarrow> char" where
  "b64_char n =
     (if n < 26 then char_of (65 + n)
      else if n < 52 then char_of (71 + n)
      else if n < 62 then char_of (n - 4)
      else if n = 62 then CHR ''+'' else CHR ''/'')"

definition b64_index :: "char \<Rightarrow> nat option" where
  "b64_index c =
     (let k = (of_char c :: nat)
      in if 65 \<le> k \<and> k \<le> 90 then Some (k - 65)
         else if 97 \<le> k \<and> k \<le> 122 then Some (k - 71)
         else if 48 \<le> k \<and> k \<le> 57 then Some (k + 4)
         else if k = 43 then Some 62
         else if k = 47 then Some 63
         else None)"

fun b64encode :: "byte list \<Rightarrow> string" where
  "b64encode [] = []"
| "b64encode [a] =
     [b64_char (unat a div 4), b64_char (unat a mod 4 * 16), CHR ''='', CHR ''='']"
| "b64encode [a, b] =
     [b64_char (unat a div 4),
      b64_char (unat a mod 4 * 16 + unat b div 16),
      b64_char (unat b mod 16 * 4), CHR ''='']"
| "b64encode (a # b # c # rest) =
     [b64_char (unat a div 4),
      b64_char (unat a mod 4 * 16 + unat b div 16),
      b64_char (unat b mod 16 * 4 + unat c div 64),
      b64_char (unat c mod 64)] @ b64encode rest"

text \<open>
  \<open>base64.b64decode\<close> on canonical input. \<open>None\<close> stands for \<open>binascii.Error\<close>.
  (Python's default mode first drops characters outside the alphabet; the model treats
  every string that is not canonical base64 as an error. Only canonical strings occur
  below.)
\<close>

fun b64decode :: "string \<Rightarrow> byte list option" where
  "b64decode [] = Some []"
| "b64decode (c1 # c2 # c3 # c4 # rest) =
     (case (b64_index c1, b64_index c2) of
        (Some i1, Some i2) \<Rightarrow>
          if c3 = CHR ''='' \<and> c4 = CHR ''='' \<and> rest = []
          then Some [of_nat (i1 * 4 + i2 div 16)]
          else (case b64_index c3 of
                  None \<Rightarrow> None
                | Some i3 \<Rightarrow>
                    if c4 = CHR ''='' \<and> rest = []
                    then Some [of_nat (i1 * 4 + i2 div 16),
                               of_nat (i2 mod 16 * 16 + i3 div 4)]
                    else (case b64_index c4 of
                            None \<Rightarrow> None
                          | Some i4 \<Rightarrow>
                              map_option
                                (\<lambda>bs. of_nat (i1 * 4 + i2 div 16) #
                                      of_nat (i2 mod 16 * 16 + i3 div 4) #
                                      of_nat (i3 mod 4 * 64 + i4) # bs)
                                (b64decode rest)))
      | _ \<Rightarrow> None)"
| "b64decode _ = None"

text \<open>\<open>schemas.StreetlampDeviceState\<close>\<close>

record StreetlampDeviceState =
  voltage :: double
  current :: double
  energy_out :: double
  energy_in :: double
  power' :: double
  frequency :: double
  status_on :: bool

text \<open>\<open>services.encode_state_data\<close>\<close>

definition encode_float :: "char \<Rightarrow> double \<Rightarrow> byte list" where
  "encode_float h val = of_char h # pack_d val"

definition encode_state_data :: "StreetlampDeviceState \<Rightarrow> string" where
  "encode_state_data sds =
     b64encode
       (encode_float (CHR ''V'') (voltage sds)
        @ encode_float (CHR ''I'') (current sds)
        @ encode_float (CHR ''M'') (energy_out sds)
        @ encode_float (CHR ''E'') (energy_in sds)
        @ encode_float (CHR ''W'') (power' sds)
        @ encode_float (CHR ''F'') (frequency sds)
        @ [of_char (CHR ''S'')]
        @ [if status_on sds then 1 else 0]
        @ replicate 8 255)"

text \<open>
  \<open>services.decode_state_data\<close>. The slice \<open>b[lo:hi]\<close> of Python never raises: it
  is cut at the end of \<open>b\<close>. Field \<open>i\<close> is the slice \<open>[i + 1 + 8 * i : 9 * (i + 1)]\<close>;
  the first six are unpacked as doubles (\<open>struct.error\<close> on a short slice), the
  seventh gives the status from its first byte (\<open>IndexError\<close> on an empty slice).
\<close>

definition slice :: "'a list \<Rightarrow> nat \<Rightarrow> nat \<Rightarrow> 'a list" where
  "slice b lo hi = drop lo (take hi b)"

definition decode_state_data :: "string \<Rightarrow> error + StreetlampDeviceState" where
  "decode_state_data s =
     (case b64decode s of
        None \<Rightarrow> Inl MalformedPayload
      | Some b \<Rightarrow>
          (let x = (\<lambda>i. slice b (i + 1 + 8 * i) (9 * (i + 1)))
           in case (unpack_d (x 0), unpack_d (x 1), unpack_d (x 2),
                    unpack_d (x 3), unpack_d (x 4), unpack_d (x 5), x 6) of
                (Some v0, Some v1, Some v2, Some v3, Some v4, Some v5, s0 # _) \<Rightarrow>
                  Inr \<lparr>voltage = v0, current = v1, energy_out = v2, energy_in = v3,
                       power' = v4, frequency = v5, status_on = (s0 \<noteq> 0)\<rparr>
              | _ \<Rightarrow> Inl MalformedPayload))"

section \<open>Floating-point values\<close>

text \<open>
  The value of a double. Comparisons follow IEEE 754 as Python does: every comparison
  with NaN is false. Arithmetic on finite values is modelled exactly, over the reals
  (rounding of the result to the nearest double is not modelled), and the constants
  \<open>0.0001\<close>, \<open>1000.0\<close>, \<open>95.0\<close>, \<open>65\<close>, \<open>100000\<close> of the source by their
  decimal values.
\<close>

datatype pyfloat = NaN | NegInf | Fin real | PosInf

definition double_val :: "double \<Rightarrow> pyfloat" where
  "double_val w =
     (let s = bit w 63;
          e = unat (take_bit 11 (drop_bit 52 w));
          m = unat (take_bit 52 w);
          sg = (if s then - 1 else 1 :: real)
      in if e = 2047 then (if m = 0 then (if s then NegInf else PosInf) else NaN)
         else if e = 0 then Fin (sg * real m / 2 ^ 1074)
         else if 1075 \<le> e then Fin (sg * real (2 ^ 52 + m) * 2 ^ (e - 1075))
         else Fin (sg * real (2 ^ 52 + m) / 2 ^ (1075 - e)))"

fun isnan :: "pyfloat \<Rightarrow> bool" where
  "isnan NaN = True"
| "isnan _ = False"

fun fl_lt :: "pyfloat \<Rightarrow> pyfloat \<Rightarrow> bool" where
  "fl_lt NaN _ = False"
| "fl_lt _ NaN = False"
| "fl_lt _ NegInf = False"
| "fl_lt NegInf _ = True"
| "fl_lt PosInf _ = False"
| "fl_lt _ PosInf = True"
| "fl_lt (Fin a) (Fin b) = (a < b)"

definition fl_gt :: "pyfloat \<Rightarrow> pyfloat \<Rightarrow> bool" where
  "fl_gt a b = fl_lt b a"

fun fl_sub :: "pyfloat \<Rightarrow> pyfloat \<Rightarrow> pyfloat" where
  "fl_sub NaN _ = NaN"
| "fl_sub _ NaN = NaN"
| "fl_sub (Fin a) (Fin b) = Fin (a - b)"
| "fl_sub PosInf PosInf = NaN"
| "fl_sub NegInf NegInf = NaN"
| "fl_sub PosInf _ = PosInf"
| "fl_sub NegInf _ = NegInf"
| "fl_sub _ PosInf = NegInf"
| "fl_sub _ NegInf = PosInf"

text \<open>Division by a finite non-zero float \<open>t\<close> (the only divisor the code uses).\<close>

fun fl_div :: "pyfloat \<Rightarrow> real \<Rightarrow> pyfloat" where
  "fl_div NaN t = NaN"
| "fl_div (Fin a) t = Fin (a / t)"
| "fl_div PosInf t = (if 0 < t then PosInf else NegInf)"
| "fl_div NegInf t = (if 0 < t then NegInf else PosInf)"

section \<open>Dates and times\<close>

text \<open>
  A \<open>datetime.datetime\<close>: the date as its proleptic Gregorian ordinal
  (\<open>toordinal()\<close>, day 1 is 0001-01-01), the time of day in its four fields, and the
  \<open>tzinfo\<close> (\<open>None\<close> for a naive value). The zones that occur are UTC,
  America/Santo_Domingo (UTC-4 all year, no daylight saving time) and fixed offsets;
  offsets are in microseconds. The year range 1..9999 of Python is not modelled.
\<close>

datatype tzinfo = UTC | Santo_Domingo | FixedOffset int

fun utcoffset :: "tzinfo \<Rightarrow> int" where
  "utcoffset UTC = 0"
| "utcoffset Santo_Domingo = - 14400000000"
| "utcoffset (FixedOffset k) = k"

record datetime =
  ordinal :: int
  hour :: int
  minute :: int
  second :: int
  microsecond :: int
  tzinfo :: "tzinfo option"

text \<open>The calendar arithmetic of CPython's \<open>datetime\<close> module.\<close>

definition is_leap :: "int \<Rightarrow> bool" where
  "is_leap y = (y mod 4 = 0 \<and> (y mod 100 \<noteq> 0 \<or> y mod 400 = 0))"

definition days_before_year :: "int \<Rightarrow> int" where
  "days_before_year year =
     (let y = year - 1 in y * 365 + y div 4 - y div 100 + y div 400)"

definition days_in_month :: "bool \<Rightarrow> int \<Rightarrow> int" where
  "days_in_month leap m =
     (if m = 2 then (if leap then 29 else 28)
      else if m = 4 \<or> m = 6 \<or> m = 9 \<or> m = 11 then 30 else 31)"

definition days_before_month :: "bool \<Rightarrow> int \<Rightarrow> int" where
  "days_before_month leap m =
     (\<Sum>k \<leftarrow> [1..<nat m]. days_in_month leap (int k))"

definition ymd2ord :: "int \<Rightarrow> int \<Rightarrow> int \<Rightarrow> int" where
  "ymd2ord y m d = days_before_year y + days_before_month (is_leap y) m + d"

definition ord2ymd :: "int \<Rightarrow> int \<times> int \<times> int" where
  "ord2ymd n0 =
     (let n = n0 - 1;
          n400 = n div 146097; n = n mod 146097;
          n100 = n div 36524; n = n mod 36524;
          n4 = n div 1461; n = n mod 1461;
          n1 = n div 365; n = n mod 365;
          y = n400 * 400 + 1 + n100 * 100 + n4 * 4 + n1
      in if n1 = 4 \<or> n100 = 4 then (y - 1, 12, 31)
         else
           (let leapyear = (n1 = 3 \<and> (n4 \<noteq> 24 \<or> n100 = 3));
                m = (n + 50) div 32;
                preceding = days_before_month leapyear m
            in if n < preceding
               then (y, m - 1, n - (preceding - days_in_month leapyear (m - 1)) + 1)
               else (y, m, n - preceding + 1)))"

definition year :: "datetime \<Rightarrow> int" where
  "year dt = fst (ord2ymd (ordinal dt))"

definition month :: "datetime \<Rightarrow> int" where
  "month dt = fst (snd (ord2ymd (ordinal dt)))"

definition day :: "datetime \<Rightarrow> int" where
  "day dt = snd (snd (ord2ymd (ordinal dt)))"

definition weekday :: "datetime \<Rightarrow> int" where
  "weekday dt = (ordinal dt + 6) mod 7"

text \<open>The constructor \<open>datetime(year, month, day, hour, minute, second, microsecond, tzinfo)\<close>.\<close>

definition mk_datetime ::
  "int \<Rightarrow> int \<Rightarrow> int \<Rightarrow> int \<Rightarrow> int \<Rightarrow> int \<Rightarrow> int \<Rightarrow> tzinfo option \<Rightarrow> datetime" where
  "mk_datetime y m d hh mm ss us tz =
     \<lparr>ordinal = ymd2ord y m d, hour = hh, minute = mm, second = ss,
      microsecond = us, tzinfo = tz\<rparr>"

text \<open>
  The wall-clock reading in microseconds since the midnight that starts ordinal 0, and
  back. An aware value denotes the instant \<open>wall - utcoffset\<close>; Python reads a naive
  value, where it needs an instant (\<open>astimezone\<close>, the database driver's encoding of a
  \<open>timestamptz\<close>), in the local zone of the process, whose offset \<open>loc\<close> is a
  parameter.
\<close>

definition to_us :: "datetime \<Rightarrow> int" where
  "to_us dt =
     (((ordinal dt * 24 + hour dt) * 60 + minute dt) * 60 + second dt) * 1000000
       + microsecond dt"

definition of_us :: "int \<Rightarrow> tzinfo option \<Rightarrow> datetime" where
  "of_us x tz =
     \<lparr>ordinal = x div 86400000000,
      hour = x div 3600000000 mod 24,
      minute = x div 60000000 mod 60,
      second = x div 1000000 mod 60,
      microsecond = x mod 1000000,
      tzinfo = tz\<rparr>"

definition instant :: "int \<Rightarrow> datetime \<Rightarrow> int" where
  "instant loc dt =
     to_us dt - (case tzinfo dt of None \<Rightarrow> loc | Some z \<Rightarrow> utcoffset z)"

definition astimezone :: "int \<Rightarrow> tzinfo \<Rightarrow> datetime \<Rightarrow> datetime" where
  "astimezone loc z dt = of_us (instant loc dt + utcoffset z) (Some z)"

text \<open>
  A \<open>DateTime(timezone=True)\<close> column holds an instant; a value read from it is an
  aware datetime in UTC.
\<close>

definition from_db :: "int \<Rightarrow> datetime" where
  "from_db i = of_us i (Some UTC)"

text \<open>
  \<open>a == b\<close> on datetimes: two aware values are equal when they denote the same
  instant, two naive values when their fields agree; a naive value never equals an
  aware one.
\<close>

definition dt_eq :: "datetime \<Rightarrow> datetime \<Rightarrow> bool" where
  "dt_eq a b =
     (case (tzinfo a, tzinfo b) of
        (Some za, Some zb) \<Rightarrow> to_us a - utcoffset za = to_us b - utcoffset zb
      | (None, None) \<Rightarrow> to_us a = to_us b
      | _ \<Rightarrow> False)"

text \<open>\<open>api.utils\<close>\<close>

definition round_to_hour :: "datetime \<Rightarrow> datetime" where
  "round_to_hour dt = dt\<lparr>microsecond := 0, second := 0, minute := 0\<rparr>"

text \<open>
  \<open>datetime.combine(dt, time.min)\<close> takes the date of \<open>dt\<close> and the time and
  \<open>tzinfo\<close> of \<open>time.min\<close>, which has none.
\<close>

definition round_to_day :: "datetime \<Rightarrow> datetime" where
  "round_to_day dt =
     \<lparr>ordinal = ordinal dt, hour = 0, minute = 0, second = 0, microsecond = 0,
      tzinfo = None\<rparr>"

definition round_to_week :: "datetime \<Rightarrow> datetime" where
  "round_to_week dt =
     (let wd = weekday dt; d = round_to_day dt
      in d\<lparr>ordinal := ordinal d - wd\<rparr>)"

definition round_to_month :: "datetime \<Rightarrow> datetime" where
  "round_to_month dt = mk_datetime (year dt) (month dt) 1 0 0 0 0 (Some Santo_Domingo)"

definition convert_to_default_tz :: "int \<Rightarrow> datetime \<Rightarrow> datetime" where
  "convert_to_default_tz loc dt = astimezone loc Santo_Domingo dt"

section \<open>Tables\<close>

text \<open>
  \<open>models.StreetlampState\<close>. The Python object carries a datetime in \<open>time\<close>; a row
  of the table carries the instant the column stores. The seven descriptive strings of
  the device (tenant, application, profile, device name) are copied from the request
  into \<open>info\<close>.
\<close>

record StreetlampInfo =
  tenant_id :: string
  tenant_name :: string
  application_id :: string
  application_name :: string
  device_profile_id :: string
  device_profile_name :: string
  device_name :: string
  info_dev_eui :: string

record 't StreetlampState =
  deduplication_id :: string
  time :: 't
  info :: StreetlampInfo
  dev_eui :: string
  dev_addr :: string
  dev_voltage :: pyfloat
  dev_current :: pyfloat
  dev_energy_out :: pyfloat
  dev_energy_in :: pyfloat
  dev_power :: pyfloat
  dev_frequency :: pyfloat
  dev_status_on :: bool

datatype AlarmType =
  INVALID_VALUE | OVER_VOLTAGE | OVER_CURRENT | OVER_POWER | OVER_ENERGY | OVER_FREQUENCY

datatype AlarmSeverity = CRITICAL | MAJOR | MINOR

text \<open>\<open>models.StreetlampAlarm\<close>: the alarm and a copy of the offending reading.\<close>

record StreetlampAlarm =
  atype :: AlarmType
  severity :: AlarmSeverity
  cleared :: bool
  reading :: "datetime StreetlampState"

text \<open>\<open>models.StreamState\<close>, the watermark row.\<close>

record StreamState =
  name :: string
  producer_ts :: "int option"
  consumer_ts :: "int option"

text \<open>
  The database. \<open>streetlamps\<close> lists the \<open>device_eui\<close> of the registry rows in the
  order \<open>find_all\<close> returns them. The rollup tables (hourly, daily, weekly, monthly)
  are kept abstract, of a type \<open>'r\<close>: what the SQL of \<open>pull\<close> computes is a parameter
  of the model (below).
\<close>

datatype resolution = Hourly | Daily | Weekly | Monthly

record 'r db =
  streetlamps :: "string list"
  streetlamp_states :: "int StreetlampState list"
  streetlamp_alarms :: "StreetlampAlarm list"
  stream_states :: "StreamState list"
  rollups :: "resolution \<Rightarrow> 'r"

subsection \<open>\<open>StreetlampStateRepository\<close>\<close>

text \<open>
  \<open>find_latest_by_dev_eui\<close> and \<open>find_oldest_by_dev_eui\<close> select the rows of the device
  whose time is the maximum (minimum) over the device's rows and end in
  \<open>scalar_one_or_none()\<close>: no row gives \<open>None\<close>, one row gives it, several rows raise
  \<open>MultipleResultsFound\<close>.
\<close>

definition scalar_one_or_none :: "'a list \<Rightarrow> error + 'a option" where
  "scalar_one_or_none rs =
     (case rs of [] \<Rightarrow> Inr None | [r] \<Rightarrow> Inr (Some r) | _ \<Rightarrow> Inl MultipleResultsFound)"

definition find_latest_by_dev_eui ::
  "int StreetlampState list \<Rightarrow> string \<Rightarrow> error + int StreetlampState option" where
  "find_latest_by_dev_eui rows d =
     scalar_one_or_none
       (filter (\<lambda>r. dev_eui r = d \<and>
                    (\<forall>r' \<in> set rows. dev_eui r' = d \<longrightarrow> time r' \<le> time r)) rows)"

definition find_oldest_by_dev_eui ::
  "int StreetlampState list \<Rightarrow> string \<Rightarrow> error + int StreetlampState option" where
  "find_oldest_by_dev_eui rows d =
     scalar_one_or_none
       (filter (\<lambda>r. dev_eui r = d \<and>
                    (\<forall>r' \<in> set rows. dev_eui r' = d \<longrightarrow> time r \<le> time r')) rows)"

text \<open>\<open>insert\<close> returns the id of the new row: ids count the rows from 1.\<close>

definition sstate_insert ::
  "int \<Rightarrow> datetime StreetlampState \<Rightarrow> int StreetlampState list
     \<Rightarrow> nat \<times> int StreetlampState list" where
  "sstate_insert loc ss rows =
     (Suc (length rows),
      rows @ [\<lparr>deduplication_id = deduplication_id ss, time = instant loc (time ss),
               info = info ss, dev_eui = dev_eui ss, dev_addr = dev_addr ss,
               dev_voltage = dev_voltage ss, dev_current = dev_current ss,
               dev_energy_out = dev_energy_out ss, dev_energy_in = dev_energy_in ss,
               dev_power = dev_power ss, dev_frequency = dev_frequency ss,
               dev_status_on = dev_status_on ss\<rparr>])"

subsection \<open>\<open>StreamStateRepository\<close>\<close>

definition lower_char :: "char \<Rightarrow> char" where
  "lower_char c =
     (let k = (of_char c :: nat) in if 65 \<le> k \<and> k \<le> 90 then char_of (k + 32) else c)"

definition lower :: "string \<Rightarrow> string" where
  "lower s = map lower_char s"

text \<open>
  \<open>find_by_name\<close> compares \<open>lower(name)\<close> on both sides and takes the first row of the
  result (\<open>scalar()\<close>); rows are listed in the order the database returns them.
\<close>

definition find_by_name :: "StreamState list \<Rightarrow> string \<Rightarrow> StreamState option" where
  "find_by_name rows n = find (\<lambda>r. lower (name r) = lower n) rows"

text \<open>
  \<open>update_producer\<close>: \<open>INSERT ... ON CONFLICT (name) DO UPDATE SET producer_ts\<close>. The
  conflict is on the exact name; a new row has no consumer timestamp.
\<close>

definition update_producer ::
  "int \<Rightarrow> StreamState list \<Rightarrow> string \<Rightarrow> datetime \<Rightarrow> StreamState list" where
  "update_producer loc rows n ts =
     (if n \<in> set (map name rows)
      then map (\<lambda>r. if name r = n then r\<lparr>producer_ts := Some (instant loc ts)\<rparr> else r) rows
      else rows @ [\<lparr>name = n, producer_ts = Some (instant loc ts), consumer_ts = None\<rparr>])"

text \<open>\<open>update_consumer\<close>: \<open>UPDATE ... SET consumer_ts WHERE name = :name\<close>.\<close>

definition update_consumer ::
  "int \<Rightarrow> StreamState list \<Rightarrow> string \<Rightarrow> datetime option \<Rightarrow> StreamState list" where
  "update_consumer loc rows n ts =
     map (\<lambda>r. if name r = n then r\<lparr>consumer_ts := map_option (instant loc) ts\<rparr> else r) rows"

section \<open>Validator and raw ingestion\<close>

text \<open>\<open>schemas.StreetlampStateCreate\<close>\<close>

record StreetlampStateCreate =
  ssc_deduplication_id :: string
  ssc_time :: datetime
  device_info :: StreetlampInfo
  ssc_dev_addr :: string
  data :: string

definition make_alarm ::
  "datetime StreetlampState \<Rightarrow> AlarmType \<Rightarrow> AlarmSeverity \<Rightarrow> StreetlampAlarm" where
  "make_alarm ss t sev = \<lparr>atype = t, severity = sev, cleared = False, reading = ss\<rparr>"

definition salarm_insert :: "StreetlampAlarm \<Rightarrow> 'r db \<Rightarrow> 'r db" where
  "salarm_insert a d = d\<lparr>streetlamp_alarms := streetlamp_alarms d @ [a]\<rparr>"

text \<open>The first condition of \<open>create\<close>: a value is NaN or outside \<open>[0.0001, 1000]\<close>.\<close>

definition out_of_range :: "pyfloat \<Rightarrow> bool" where
  "out_of_range v = (isnan v \<or> fl_lt v (Fin (1 / 10000)) \<or> fl_gt v (Fin 1000))"

text \<open>
  The divisor of the energy rate: \<open>t = (ss.time - ls.time).total_seconds() // 3600\<close>,
  then \<open>t = 1 if t == 0 else t\<close>. Both times are aware, so the difference is the
  difference of the instants; \<open>//\<close> rounds down, also for a negative difference.
\<close>

definition rate_hours :: "int \<Rightarrow> int \<Rightarrow> int" where
  "rate_hours t_new t_prior =
     (let t = (t_new - t_prior) div 3600000000 in if t = 0 then 1 else t)"

text \<open>
  The object \<open>ss = api.models.StreetlampState(...)\<close> that \<open>create\<close> builds from the
  request and its decoded payload; its time is \<open>ssc.time.astimezone(Santo_Domingo)\<close>.
\<close>

definition new_reading ::
  "int \<Rightarrow> StreetlampStateCreate \<Rightarrow> StreetlampDeviceState \<Rightarrow> datetime StreetlampState" where
  "new_reading loc ssc sds =
     \<lparr>deduplication_id = ssc_deduplication_id ssc,
      time = astimezone loc Santo_Domingo (ssc_time ssc),
      info = device_info ssc, dev_eui = info_dev_eui (device_info ssc),
      dev_addr = ssc_dev_addr ssc,
      dev_voltage = double_val (voltage sds),
      dev_current = double_val (current sds),
      dev_energy_out = double_val (energy_out sds),
      dev_energy_in = double_val (energy_in sds),
      dev_power = double_val (power' sds),
      dev_frequency = double_val (frequency sds),
      dev_status_on = status_on sds\<rparr>"

text \<open>
  \<open>StreetlampStateService.create\<close>. The result is the exception raised, or the value
  returned (the id of the new reading, \<open>None\<close> when an alarm was raised) with the
  database after the call.
\<close>

definition create ::
  "int \<Rightarrow> StreetlampStateCreate \<Rightarrow> 'r db \<Rightarrow> error + nat option \<times> 'r db" where
  "create loc ssc d =
     (case decode_state_data (data ssc) of
        Inl e \<Rightarrow> Inl e
      | Inr sds \<Rightarrow>
          (let ss = new_reading loc ssc sds
           in if out_of_range (dev_voltage ss) \<or> out_of_range (dev_current ss)
                 \<or> out_of_range (dev_power ss) \<or> out_of_range (dev_frequency ss)
              then Inr (None, salarm_insert (make_alarm ss INVALID_VALUE MINOR) d)
              else if fl_gt (dev_power ss) (Fin 95)
              then Inr (None, salarm_insert (make_alarm ss OVER_POWER CRITICAL) d)
              else if fl_gt (dev_frequency ss) (Fin 65)
              then Inr (None, salarm_insert (make_alarm ss OVER_FREQUENCY CRITICAL) d)
              else
                (case find_latest_by_dev_eui (streetlamp_states d) (dev_eui ss) of
                   Inl e \<Rightarrow> Inl e
                 | Inr ls \<Rightarrow>
                     if (case ls of
                           None \<Rightarrow> False
                         | Some l \<Rightarrow>
                             fl_gt (fl_div (fl_sub (dev_energy_in ss) (dev_energy_in l))
                                           (of_int (rate_hours (instant loc (time ss)) (time l))))
                                   (Fin 100000))
                     then Inr (None, salarm_insert (make_alarm ss OVER_ENERGY MAJOR) d)
                     else
                       (let (ssid, rows) = sstate_insert loc ss (streetlamp_states d)
                        in Inr (Some ssid,
                                d\<lparr>streetlamp_states := rows,
                                  stream_states :=
                                    update_producer loc (stream_states d)
                                      (''streetlamp:state:hourly:''
                                         @ info_dev_eui (device_info ssc))
                                      (round_to_hour (time ss))\<rparr>)))))"

section \<open>Rollup Aggregator\<close>

text \<open>
  The four aggregation services (\<open>StreetlampHourlyAggregationService\<close>, \<open>...Daily...\<close>,
  \<open>...Weekly...\<close>, \<open>...Monthly...\<close>) have the same code up to the stream name, the
  table the first range is seeded from, and the producers they set afterwards. They are
  modelled by one definition with the resolution as a parameter.

  What the database does in \<open>pull\<close> (the grouped \<open>INSERT ... SELECT ... ON CONFLICT\<close>
  of a stage, which reads the readings or a lower rollup table and writes the stage's
  own table), and which bucket is the oldest of a device in a rollup table, are
  parameters: the environment \<open>env\<close> gives, for each, the exception raised or the
  result (for \<open>pull\<close>: the row count and the new contents of the stage's table).
  The theorems hold for every environment.
\<close>

record 'r env =
  local_offset :: int
  pull :: "resolution \<Rightarrow> string \<Rightarrow> datetime \<Rightarrow> datetime
             \<Rightarrow> int StreetlampState list \<Rightarrow> (resolution \<Rightarrow> 'r) \<Rightarrow> error + nat \<times> 'r"
  find_oldest_bucket :: "'r \<Rightarrow> string \<Rightarrow> error + datetime option"
  xdel_fails :: "nat \<times> nat \<Rightarrow> bool"
  clock :: "nat \<Rightarrow> int"

fun resolution_name :: "resolution \<Rightarrow> string" where
  "resolution_name Hourly = ''hourly''"
| "resolution_name Daily = ''daily''"
| "resolution_name Weekly = ''weekly''"
| "resolution_name Monthly = ''monthly''"

definition stream_name :: "resolution \<Rightarrow> string \<Rightarrow> string" where
  "stream_name res d = ''streetlamp:state:'' @ resolution_name res @ '':'' @ d"

text \<open>
  The seed of \<open>t0\<close> when the stream has no consumer timestamp: the hour of the oldest
  reading (hourly stage), the oldest hourly bucket (daily stage), the oldest daily
  bucket (weekly and monthly stages).
\<close>

definition seed_t0 ::
  "'r env \<Rightarrow> resolution \<Rightarrow> string \<Rightarrow> 'r db \<Rightarrow> error + datetime option" where
  "seed_t0 env res d_eui d =
     (case res of
        Hourly \<Rightarrow>
          (case find_oldest_by_dev_eui (streetlamp_states d) d_eui of
             Inl e \<Rightarrow> Inl e
           | Inr None \<Rightarrow> Inr None
           | Inr (Some oss) \<Rightarrow> Inr (Some (round_to_hour (from_db (time oss)))))
      | Daily \<Rightarrow> find_oldest_bucket env (rollups d Hourly) d_eui
      | Weekly \<Rightarrow> find_oldest_bucket env (rollups d Daily) d_eui
      | Monthly \<Rightarrow> find_oldest_bucket env (rollups d Daily) d_eui)"

text \<open>\<open>_get_hourly_range\<close>, \<open>_get_daily_range\<close>, \<open>_get_weekly_range\<close>, \<open>_get_monthly_range\<close>\<close>

definition get_range ::
  "'r env \<Rightarrow> resolution \<Rightarrow> string \<Rightarrow> string \<Rightarrow> 'r db
     \<Rightarrow> error + (datetime \<times> datetime) option" where
  "get_range env res strname d_eui d =
     (case find_by_name (stream_states d) strname of
        None \<Rightarrow> Inr None
      | Some ss_str \<Rightarrow>
          (case producer_ts ss_str of
             None \<Rightarrow> Inr None
           | Some p \<Rightarrow>
               (case (case consumer_ts ss_str of
                        None \<Rightarrow> seed_t0 env res d_eui d
                      | Some c \<Rightarrow> Inr (Some (from_db c))) of
                  Inl e \<Rightarrow> Inl e
                | Inr None \<Rightarrow> Inr None
                | Inr (Some t0) \<Rightarrow>
                    (let t1 = from_db p
                     in if dt_eq t0 t1 then Inr None
                        else Inr (Some (convert_to_default_tz (local_offset env) t0,
                                        convert_to_default_tz (local_offset env) t1))))))"

text \<open>The producers a stage sets after it has processed a device through \<open>t1\<close>.\<close>

fun next_producers :: "resolution \<Rightarrow> string \<Rightarrow> datetime \<Rightarrow> (string \<times> datetime) list" where
  "next_producers Hourly d t1 = [(stream_name Daily d, round_to_day t1)]"
| "next_producers Daily d t1 =
     [(stream_name Weekly d, round_to_week t1), (stream_name Monthly d, round_to_month t1)]"
| "next_producers Weekly d t1 = []"
| "next_producers Monthly d t1 = []"

text \<open>The body of the loop of \<open>aggregate\<close>, for one device: the rows written and the new database.\<close>

definition aggregate_device ::
  "'r env \<Rightarrow> resolution \<Rightarrow> string \<Rightarrow> 'r db \<Rightarrow> error + nat \<times> 'r db" where
  "aggregate_device env res d_eui d =
     (let strname = stream_name res d_eui
      in case get_range env res strname d_eui d of
           Inl e \<Rightarrow> Inl e
         | Inr None \<Rightarrow> Inr (0, d)
         | Inr (Some (t0, t1)) \<Rightarrow>
             (case pull env res d_eui t0 t1 (streetlamp_states d) (rollups d) of
                Inl e \<Rightarrow> Inl e
              | Inr (nr, ro) \<Rightarrow>
                  Inr (nr,
                       d\<lparr>rollups := (rollups d)(res := ro),
                         stream_states :=
                           fold (\<lambda>(n, ts) rows. update_producer (local_offset env) rows n ts)
                             (next_producers res d_eui t1)
                             (update_consumer (local_offset env) (stream_states d)
                                strname (Some t1))\<rparr>)))"

text \<open>
  \<open>aggregate\<close>: the loop over the devices; \<open>tnr\<close> is the running total. An exception of
  the body is not handled inside \<open>aggregate\<close> and leaves it.
\<close>

fun aggregate_loop ::
  "'r env \<Rightarrow> resolution \<Rightarrow> string list \<Rightarrow> nat \<Rightarrow> 'r db \<Rightarrow> error + nat \<times> 'r db" where
  "aggregate_loop env res [] tnr d = Inr (tnr, d)"
| "aggregate_loop env res (s # ss) tnr d =
     (case aggregate_device env res s d of
        Inl e \<Rightarrow> Inl e
      | Inr (nr, d') \<Rightarrow> aggregate_loop env res ss (tnr + nr) d')"

definition aggregate :: "'r env \<Rightarrow> resolution \<Rightarrow> 'r db \<Rightarrow> error + nat \<times> 'r db" where
  "aggregate env res d = aggregate_loop env res (streetlamps d) 0 d"

section \<open>Scheduler loop\<close>

text \<open>
  The state outside the functions: the database, the Redis stream
  \<open>nl:streetlamp_states\<close> (entries in ascending id order) and what has been logged as
  an error. A stream id \<open>ms-seq\<close> is a pair ordered lexicographically; \<open>'0-0'\<close> is
  \<open>(0, 0)\<close>. The value of an entry either parses to a \<open>StreetlampStateCreate\<close> or makes
  \<open>parse_raw\<close> raise.
\<close>

type_synonym stream_id = "nat \<times> nat"

datatype item = Unparsable | Parsed StreetlampStateCreate

record 'r world =
  database :: "'r db"
  queue :: "(stream_id \<times> item) list"
  logged :: "error list"

definition id_less :: "stream_id \<Rightarrow> stream_id \<Rightarrow> bool" where
  "id_less a b = (fst a < fst b \<or> (fst a = fst b \<and> snd a < snd b))"

definition xread :: "(stream_id \<times> item) list \<Rightarrow> stream_id \<Rightarrow> nat \<Rightarrow> (stream_id \<times> item) list" where
  "xread q last_id count = take count (filter (\<lambda>(i, _). id_less last_id i) q)"

definition xdel :: "(stream_id \<times> item) list \<Rightarrow> stream_id \<Rightarrow> (stream_id \<times> item) list" where
  "xdel q i = filter (\<lambda>(j, _). j \<noteq> i) q"

text \<open>
  \<open>run_agg_process\<close>: the four stages in one transaction. An exception of a stage ends
  the transaction without commit (the database is as before the pass) and is logged.
\<close>

definition run_agg_process :: "'r env \<Rightarrow> 'r world \<Rightarrow> 'r world" where
  "run_agg_process env w =
     (case aggregate env Hourly (database w) of
        Inl e \<Rightarrow> w\<lparr>logged := logged w @ [e]\<rparr>
      | Inr (_, d1) \<Rightarrow>
     (case aggregate env Daily d1 of
        Inl e \<Rightarrow> w\<lparr>logged := logged w @ [e]\<rparr>
      | Inr (_, d2) \<Rightarrow>
     (case aggregate env Weekly d2 of
        Inl e \<Rightarrow> w\<lparr>logged := logged w @ [e]\<rparr>
      | Inr (_, d3) \<Rightarrow>
     (case aggregate env Monthly d3 of
        Inl e \<Rightarrow> w\<lparr>logged := logged w @ [e]\<rparr>
      | Inr (_, d4) \<Rightarrow> w\<lparr>database := d4\<rparr>))))"

text \<open>
  The loop of \<open>proc_streetlamp_state_batch\<close> over the entries read. Its state is
  the count \<open>n\<close>, the local variable \<open>last_id_seen\<close>, the database inside the
  transaction and the stream, with the exception that left the loop, if any.
  \<open>parse_raw\<close> stands before the inner \<open>try\<close>; \<open>create\<close> and \<open>xdel\<close> stand inside
  it, where only \<open>redis.RedisError\<close> is caught (and logged); \<open>finally\<close> assigns
  \<open>last_id_seen\<close> on the way out in every case.
\<close>

record 'r batch_state =
  exc :: "error option"
  n_created :: nat
  last_id_seen :: stream_id
  bdb :: "'r db"
  bqueue :: "(stream_id \<times> item) list"
  blogged :: "error list"

fun batch_loop ::
  "'r env \<Rightarrow> (stream_id \<times> item) list \<Rightarrow> 'r batch_state \<Rightarrow> 'r batch_state" where
  "batch_loop env [] st = st"
| "batch_loop env ((item_id, itm) # es) st =
     (case itm of
        Unparsable \<Rightarrow> st\<lparr>exc := Some ValidationError\<rparr>
      | Parsed ssc \<Rightarrow>
          (case (if data ssc \<noteq> [] then create (local_offset env) ssc (bdb st)
                 else Inr (None, bdb st)) of
             Inl e \<Rightarrow>
               if e = RedisError
               then batch_loop env es
                      (st\<lparr>last_id_seen := item_id, blogged := blogged st @ [e]\<rparr>)
               else st\<lparr>exc := Some e, last_id_seen := item_id\<rparr>
           | Inr (ssid, d') \<Rightarrow>
               (let n' = (if ssid \<noteq> None then n_created st + 1 else n_created st)
                in if xdel_fails env item_id
                   then batch_loop env es
                          (st\<lparr>n_created := n', last_id_seen := item_id, bdb := d',
                             blogged := blogged st @ [RedisError]\<rparr>)
                   else batch_loop env es
                          (st\<lparr>n_created := n', last_id_seen := item_id, bdb := d',
                             bqueue := xdel (bqueue st) item_id\<rparr>))))"

text \<open>
  \<open>proc_streetlamp_state_batch\<close>. The Python function returns \<open>None\<close>: what it
  leaves behind is the world. An exception that leaves the loop ends the transaction
  without commit and is logged; deletions from the stream are not undone.
\<close>

definition proc_streetlamp_state_batch ::
  "'r env \<Rightarrow> stream_id \<Rightarrow> nat \<Rightarrow> 'r world \<Rightarrow> 'r world" where
  "proc_streetlamp_state_batch env last_id batch_size w =
     (let entries = xread (queue w) last_id batch_size;
          st = batch_loop env entries
                 \<lparr>exc = None, n_created = 0, last_id_seen = last_id,
                  bdb = database w, bqueue = queue w, blogged = logged w\<rparr>
      in case exc st of
           None \<Rightarrow> \<lparr>database = bdb st, queue = bqueue st, logged = blogged st\<rparr>
         | Some e \<Rightarrow> \<lparr>database = database w, queue = bqueue st, logged = blogged st @ [e]\<rparr>)"

text \<open>
  \<open>proc_streetlamp_states\<close>, the \<open>while True\<close> loop, run for a given number of
  iterations. \<open>last_id_seen\<close> is \<open>'0-0'\<close> and is never assigned in the loop; \<open>t\<close> is
  the time of the last aggregation pass and \<open>clock env k\<close> the reading of
  \<open>time.time()\<close> in iteration \<open>k\<close>, in seconds.
\<close>

fun proc_streetlamp_states :: "'r env \<Rightarrow> nat \<Rightarrow> nat \<Rightarrow> int \<Rightarrow> 'r world \<Rightarrow> 'r world" where
  "proc_streetlamp_states env 0 k t w = w"
| "proc_streetlamp_states env (Suc fuel) k t w =
     (let w1 = proc_streetlamp_state_batch env (0, 0) 1000 w
      in if 15 * 60 < clock env k - t
         then proc_streetlamp_states env fuel (Suc k) (clock env k) (run_agg_process env w1)
         else proc_streetlamp_states env fuel (Suc k) t w1)"

section \<open>The watermark invariant\<close>

text \<open>
  A watermark row is in order when its consumer timestamp, if it has one, is at most
  its producer timestamp.
\<close>

definition watermark_ok :: "StreamState \<Rightarrow> bool" where
  "watermark_ok r =
     (case consumer_ts r of
        None \<Rightarrow> True
      | Some c \<Rightarrow> (case producer_ts r of None \<Rightarrow> False | Some p \<Rightarrow> c \<le> p))"

text \<open>The producer timestamps of the rows of a stream name.\<close>

definition producers_of :: "'r db \<Rightarrow> string \<Rightarrow> int option set" where
  "producers_of d n = set (map producer_ts (filter (\<lambda>r. name r = n) (stream_states d)))"

text \<open>
  An environment in which \<open>pull\<close> writes one row and never fails, no rollup table
  has a bucket, and \<open>xdel\<close> never fails; the rollup tables hold no data (\<open>unit\<close>).
\<close>

definition example_env :: "unit env" where
  "example_env =
     \<lparr>local_offset = 0,
      pull = (\<lambda>res d_eui t0 t1 rows ro. Inr (1, ())),
      find_oldest_bucket = (\<lambda>tbl d_eui. Inr None),
      xdel_fails = (\<lambda>i. False),
      clock = (\<lambda>k. 0)\<rparr>"

section \<open>Example inputs\<close>

text \<open>
  Inputs the theorems are evaluated at. The doubles are given by their bit patterns:
  \<open>0x406E000000000000\<close> is 240.0, \<open>0x3FE0000000000000\<close> is 0.5,
  \<open>0x4056800000000000\<close> is 90.0, \<open>0x404E000000000000\<close> is 60.0,
  \<open>0x4069000000000000\<close> is 200.0, \<open>0x7FF8000000000000\<close> is NaN,
  \<open>0x408F400000000000\<close> is 1000.0, \<open>0x40F8A88000000000\<close> is 101000.0,
  \<open>0x40F8A89000000000\<close> is 101001.0, \<open>0x41086A0000000000\<close> is 200000.0.
\<close>

definition example_info :: "string \<Rightarrow> StreetlampInfo" where
  "example_info eui =
     \<lparr>tenant_id = ''52f14cd4'', tenant_name = ''NetoLight'',
      application_id = ''c828e0b5'', application_name = ''NetoLight App'',
      device_profile_id = ''77efb5fd'', device_profile_name = ''NetoLight Default Profile'',
      device_name = ''NLPY'' @ eui, info_dev_eui = eui\<rparr>"

text \<open>A device state with the given voltage, power and \<open>energy_in\<close>; current 0.5, frequency 60.\<close>

definition example_sds :: "double \<Rightarrow> double \<Rightarrow> double \<Rightarrow> StreetlampDeviceState" where
  "example_sds v p e =
     \<lparr>voltage = v, current = 0x3FE0000000000000, energy_out = 0, energy_in = e,
      power' = p, frequency = 0x404E000000000000, status_on = True\<rparr>"

definition example_ssc :: "string \<Rightarrow> datetime \<Rightarrow> StreetlampDeviceState \<Rightarrow> StreetlampStateCreate" where
  "example_ssc eui t sds =
     \<lparr>ssc_deduplication_id = ''dedup'', ssc_time = t, device_info = example_info eui,
      ssc_dev_addr = ''006fdf37'', data = encode_state_data sds\<rparr>"

definition empty_db :: "unit db" where
  "empty_db =
     \<lparr>streetlamps = [], streetlamp_states = [], streetlamp_alarms = [],
      stream_states = [], rollups = (\<lambda>_. ())\<rparr>"

text \<open>The database after a call of \<open>create\<close> that returned.\<close>

definition db_after :: "error + 'a \<times> 'r db \<Rightarrow> 'r db \<Rightarrow> 'r db" where
  "db_after res d = (case res of Inl _ \<Rightarrow> d | Inr (_, d') \<Rightarrow> d')"

text \<open>
  The database after one reading of device \<open>5058000000000001\<close> with voltage 240,
  power 90 and the given time and \<open>energy_in\<close> was ingested into the empty database.
\<close>

definition db_with_prior :: "datetime \<Rightarrow> double \<Rightarrow> unit db" where
  "db_with_prior t e =
     db_after
       (create 0 (example_ssc ''5058000000000001'' t
                    (example_sds 0x406E000000000000 0x4056800000000000 e)) empty_db)
       empty_db"

text \<open>
  A database with one registered device \<open>eui\<close> whose stream of the given resolution
  has been consumed through 2024-03-01T04:00:00 and produced through
  2024-03-01T05:00:00 (Santo Domingo time); the stream row is named \<open>nm\<close>.
\<close>

definition example_db_pending :: "string \<Rightarrow> string \<Rightarrow> 'r \<Rightarrow> 'r db" where
  "example_db_pending eui nm tbl =
     \<lparr>streetlamps = [eui], streetlamp_states = [], streetlamp_alarms = [],
      stream_states =
        [\<lparr>name = nm,
          producer_ts = Some (instant 0 (mk_datetime 2024 3 1 5 0 0 0 (Some Santo_Domingo))),
          consumer_ts = Some (instant 0 (mk_datetime 2024 3 1 4 0 0 0 (Some Santo_Domingo)))\<rparr>],
      rollups = (\<lambda>_. tbl)\<rparr>"



text \<open>
  An environment whose rollup tables only count the executions of \<open>pull\<close> on them;
  \<open>pull\<close> reports no row written.
\<close>

definition counting_env :: "nat env" where
  "counting_env =
     \<lparr>local_offset = 0,
      pull = (\<lambda>res d_eui t0 t1 rows ro. Inr (0, Suc (ro res))),
      find_oldest_bucket = (\<lambda>tbl d_eui. Inr None),
      xdel_fails = (\<lambda>i. False),
      clock = (\<lambda>k. 0)\<rparr>"

text \<open>
  A run of the pipeline for the registered device \<open>5058000000000001\<close>: a reading dated
  09:00 UTC is ingested, then one dated 10:00; the hourly stage runs; then a reading
  dated 05:00 arrives late and is ingested. All three readings have voltage 240,
  power 90 and \<open>energy_in = 1000\<close>.
\<close>

definition pipeline_db0 :: "unit db" where
  "pipeline_db0 =
     (db_with_prior (mk_datetime 2024 3 1 9 0 0 0 (Some UTC)) 0x408F400000000000)
       \<lparr>streetlamps := [''5058000000000001'']\<rparr>"

definition pipeline_db1 :: "unit db" where
  "pipeline_db1 =
     db_after
       (create 0 (example_ssc ''5058000000000001'' (mk_datetime 2024 3 1 10 0 0 0 (Some UTC))
                    (example_sds 0x406E000000000000 0x4056800000000000 0x408F400000000000))
          pipeline_db0)
       pipeline_db0"

definition pipeline_db2 :: "unit db" where
  "pipeline_db2 = db_after (aggregate example_env Hourly pipeline_db1) pipeline_db1"

definition pipeline_db3 :: "unit db" where
  "pipeline_db3 =
     db_after
       (create 0 (example_ssc ''5058000000000001'' (mk_datetime 2024 3 1 5 0 0 0 (Some UTC))
                    (example_sds 0x406E000000000000 0x4056800000000000 0x408F400000000000))
          pipeline_db2)
       pipeline_db2"

section \<open>Verified properties\<close>

subsection \<open>Summary Calculator\<close>






subsection \<open>Codec\<close>

lemma byte_step: "push_bit 8 (drop_bit 8 x) OR ucast (ucast x :: byte) = (x :: double)"
  by (rule bit_word_eqI) (auto simp: bit_simps)

lemma top_byte: "ucast (ucast (drop_bit 56 w) :: byte) = (drop_bit 56 w :: double)"
  by (rule bit_word_eqI) (auto simp: bit_simps dest: bit_imp_le_length)

lemma unpack_pack_d: "unpack_d (pack_d w) = Some w"
proof -
  have e: "\<And>k. push_bit 8 (drop_bit (8 + k) w) OR ucast (ucast (drop_bit k w) :: byte) = drop_bit k w"
    using byte_step [of "drop_bit k w" for k] by (simp add: drop_bit_drop_bit add.commute)
  show ?thesis
    unfolding unpack_d_def pack_d_def
    using e [of 0] e [of 8] e [of 16] e [of 24] e [of 32] e [of 40] e [of 48] top_byte [of w]
    by (simp add: upt_rec)
qed

lemma length_pack_d: "length (pack_d w) = 8"
  by (simp add: pack_d_def)

lemma b64_index_char: "n < 64 \<Longrightarrow> b64_index (b64_char n) = Some n"
  by (auto simp: b64_index_def b64_char_def Let_def)

lemma b64_char_not_pad: "n < 64 \<Longrightarrow> b64_char n \<noteq> CHR ''=''"
proof
  assume "n < 64" and "b64_char n = CHR ''=''"
  then have "b64_index (CHR ''='') = Some n"
    using b64_index_char [of n] by simp
  then show False by (simp add: b64_index_def)
qed

lemma sextets:
  fixes a b c :: byte
  shows "unat a div 4 < 64" "unat a mod 4 * 16 < 64"
    "unat a mod 4 * 16 + unat b div 16 < 64" "unat b mod 16 * 4 < 64"
    "unat b mod 16 * 4 + unat c div 64 < 64" "unat c mod 64 < 64"
  using unsigned_less [of a, where ?'a = nat] unsigned_less [of b, where ?'a = nat]
    unsigned_less [of c, where ?'a = nat]
  by simp_all

lemma octets:
  fixes a b c :: byte
  shows "of_nat (unat a div 4 * 4 + unat a mod 4 * 16 div 16) = a"
    "of_nat (unat a div 4 * 4 + (unat a mod 4 * 16 + unat b div 16) div 16) = a"
    "of_nat ((unat a mod 4 * 16 + unat b div 16) mod 16 * 16 + unat b mod 16 * 4 div 4) = b"
    "of_nat ((unat a mod 4 * 16 + unat b div 16) mod 16 * 16
             + (unat b mod 16 * 4 + unat c div 64) div 4) = b"
    "of_nat ((unat b mod 16 * 4 + unat c div 64) mod 4 * 64 + unat c mod 64) = c"
proof -
  have ub: "unat b < 256" and uc: "unat c < 256"
    using unsigned_less [of b, where ?'a = nat] unsigned_less [of c, where ?'a = nat] by simp_all
  have 1: "unat a div 4 * 4 + unat a mod 4 * 16 div 16 = unat a" by simp
  have 2: "unat a div 4 * 4 + (unat a mod 4 * 16 + unat b div 16) div 16 = unat a"
    using ub by simp
  have 3: "(unat a mod 4 * 16 + unat b div 16) mod 16 * 16 + unat b mod 16 * 4 div 4 = unat b"
    using ub by simp
  have 4: "(unat a mod 4 * 16 + unat b div 16) mod 16 * 16
             + (unat b mod 16 * 4 + unat c div 64) div 4 = unat b"
    using ub uc by simp
  have 5: "(unat b mod 16 * 4 + unat c div 64) mod 4 * 64 + unat c mod 64 = unat c"
    using uc by simp
  show "of_nat (unat a div 4 * 4 + unat a mod 4 * 16 div 16) = a"
    "of_nat (unat a div 4 * 4 + (unat a mod 4 * 16 + unat b div 16) div 16) = a"
    "of_nat ((unat a mod 4 * 16 + unat b div 16) mod 16 * 16 + unat b mod 16 * 4 div 4) = b"
    "of_nat ((unat a mod 4 * 16 + unat b div 16) mod 16 * 16
             + (unat b mod 16 * 4 + unat c div 64) div 4) = b"
    "of_nat ((unat b mod 16 * 4 + unat c div 64) mod 4 * 64 + unat c mod 64) = c"
    unfolding 1 2 3 4 5 by simp_all
qed

lemma b64decode_group:
  assumes "i1 < 64" "i2 < 64" "i3 < 64" "i4 < 64"
  shows "b64decode ([b64_char i1, b64_char i2, b64_char i3, b64_char i4] @ rest) =
     map_option (\<lambda>bs. of_nat (i1 * 4 + i2 div 16) # of_nat (i2 mod 16 * 16 + i3 div 4) #
                      of_nat (i3 mod 4 * 64 + i4) # bs) (b64decode rest)"
  using assms by (simp add: b64_index_char b64_char_not_pad)

lemma b64decode_last2:
  assumes "i1 < 64" "i2 < 64" "i3 < 64"
  shows "b64decode [b64_char i1, b64_char i2, b64_char i3, CHR ''=''] =
     Some [of_nat (i1 * 4 + i2 div 16), of_nat (i2 mod 16 * 16 + i3 div 4)]"
  using assms by (simp add: b64_index_char b64_char_not_pad)

lemma b64decode_last1:
  assumes "i1 < 64" "i2 < 64"
  shows "b64decode [b64_char i1, b64_char i2, CHR ''='', CHR ''=''] =
     Some [of_nat (i1 * 4 + i2 div 16)]"
  using assms by (simp add: b64_index_char)

lemma b64decode_b64encode: "b64decode (b64encode bs) = Some bs"
proof (induction bs rule: b64encode.induct)
  case 1
  show ?case by simp
next
  case (2 a)
  show ?case
    unfolding b64encode.simps
    by (subst b64decode_last1) (simp_all only: sextets octets)
next
  case (3 a b)
  show ?case
    unfolding b64encode.simps
    by (subst b64decode_last2) (simp_all only: sextets octets)
next
  case (4 a b c rest)
  show ?case
    unfolding b64encode.simps
    by (subst b64decode_group) (simp_all only: sextets octets 4 option.map)
qed


lemma slice_mid:
  "length pre = lo \<Longrightarrow> lo + length mid = hi \<Longrightarrow> slice (pre @ mid @ post) lo hi = mid"
  by (auto simp: slice_def)

lemma length_encode_float: "length (encode_float h v) = 9"
  by (simp add: encode_float_def length_pack_d)

lemma slice_encode_float:
  "length pre = lo \<Longrightarrow> lo + 9 = hi \<Longrightarrow>
   slice (pre @ encode_float h v @ post) (Suc lo) hi = pack_d v"
  using slice_mid [of "pre @ [of_char h]" "Suc lo" "pack_d v" hi post]
  by (simp add: encode_float_def length_pack_d)

lemma decode_encode_roundtrip: "decode_state_data (encode_state_data r) = Inr r"
proof -
  define f0 where "f0 = encode_float (CHR ''V'') (voltage r)"
  define f1 where "f1 = encode_float (CHR ''I'') (current r)"
  define f2 where "f2 = encode_float (CHR ''M'') (energy_out r)"
  define f3 where "f3 = encode_float (CHR ''E'') (energy_in r)"
  define f4 where "f4 = encode_float (CHR ''W'') (power' r)"
  define f5 where "f5 = encode_float (CHR ''F'') (frequency r)"
  define st :: byte where "st = (if status_on r then 1 else 0)"
  define tl8 :: "byte list" where "tl8 = replicate 8 255"
  define b where "b = f0 @ f1 @ f2 @ f3 @ f4 @ f5 @ [of_char (CHR ''S'')] @ [st] @ tl8"
  have enc: "encode_state_data r = b64encode b"
    by (simp add: encode_state_data_def b_def f0_def f1_def f2_def f3_def f4_def f5_def
        st_def tl8_def)
  have len: "length f0 = 9" "length f1 = 9" "length f2 = 9" "length f3 = 9"
    "length f4 = 9" "length f5 = 9"
    by (simp_all add: f0_def f1_def f2_def f3_def f4_def f5_def length_encode_float)
  have s0: "slice b 1 9 = pack_d (voltage r)"
    using slice_encode_float [of "[]" 0 9 "CHR ''V''" "voltage r"]
    by (simp add: b_def f0_def)
  have s1: "slice b 10 18 = pack_d (current r)"
    using slice_encode_float [of "f0" 9 18 "CHR ''I''" "current r"] len
    by (simp add: b_def f1_def)
  have s2: "slice b 19 27 = pack_d (energy_out r)"
    using slice_encode_float [of "f0 @ f1" 18 27 "CHR ''M''" "energy_out r"] len
    by (simp add: b_def f2_def)
  have s3: "slice b 28 36 = pack_d (energy_in r)"
    using slice_encode_float [of "f0 @ f1 @ f2" 27 36 "CHR ''E''" "energy_in r"] len
    by (simp add: b_def f3_def)
  have s4: "slice b 37 45 = pack_d (power' r)"
    using slice_encode_float [of "f0 @ f1 @ f2 @ f3" 36 45 "CHR ''W''" "power' r"] len
    by (simp add: b_def f4_def)
  have s5: "slice b 46 54 = pack_d (frequency r)"
    using slice_encode_float [of "f0 @ f1 @ f2 @ f3 @ f4" 45 54 "CHR ''F''" "frequency r"] len
    by (simp add: b_def f5_def)
  have s6: "slice b 55 63 = st # replicate 7 255"
    using slice_mid [of "f0 @ f1 @ f2 @ f3 @ f4 @ f5 @ [of_char (CHR ''S'')]" 55
        "st # replicate 7 255" 63 "[255]"] len
    by (simp add: b_def tl8_def numeral_eq_Suc)
  have st: "(st \<noteq> 0) = status_on r"
    by (simp add: st_def)
  define x where "x = (\<lambda>i. slice b (i + 1 + 8 * i) (9 * (i + 1)))"
  have x: "x 0 = pack_d (voltage r)" "x 1 = pack_d (current r)"
    "x 2 = pack_d (energy_out r)" "x 3 = pack_d (energy_in r)"
    "x 4 = pack_d (power' r)" "x 5 = pack_d (frequency r)" "x 6 = st # replicate 7 255"
    using s0 s1 s2 s3 s4 s5 s6 by (simp_all add: x_def)
  have "decode_state_data (encode_state_data r) =
     (case (unpack_d (x 0), unpack_d (x 1), unpack_d (x 2),
            unpack_d (x 3), unpack_d (x 4), unpack_d (x 5), x 6) of
        (Some v0, Some v1, Some v2, Some v3, Some v4, Some v5, s0 # _) \<Rightarrow>
          Inr \<lparr>voltage = v0, current = v1, energy_out = v2, energy_in = v3,
               power' = v4, frequency = v5, status_on = (s0 \<noteq> 0)\<rparr>
      | _ \<Rightarrow> Inl MalformedPayload)"
    unfolding decode_state_data_def enc b64decode_b64encode x_def Let_def
    by (simp only: option.case)
  also have "\<dots> = Inr r"
    unfolding x unpack_pack_d by (simp add: st)
  finally show ?thesis .
qed

text \<open>
  Claim C6. Decoding the encoding of a state struct returns the struct itself: the six
  doubles with the same 64-bit patterns and the same status. This holds for every
  bit pattern, so in particular for every struct of six finite doubles and a boolean.
\<close>

theorem decode_encode_state_data:
  "decode_state_data (encode_state_data r) = Inr r"
  by (rule decode_encode_roundtrip)

subsection \<open>Dates and times\<close>

lemma split_mod:
  fixes x :: int
  shows "x mod 60000000 = 1000000 * (x div 1000000 mod 60) + x mod 1000000"
    "x mod 3600000000 = 60000000 * (x div 60000000 mod 60) + x mod 60000000"
    "x mod 86400000000 = 3600000000 * (x div 3600000000 mod 24) + x mod 3600000000"
  using zmod_zmult2_eq [of 60 x 1000000] zmod_zmult2_eq [of 60 x 60000000]
    zmod_zmult2_eq [of 24 x 3600000000] by simp_all

lemma recombine:
  fixes d h m s u x :: int
  assumes "a = 1000000 * s + u" "b = 60000000 * m + a" "c = 3600000000 * h + b"
    "x = 86400000000 * d + c"
  shows "(((d * 24 + h) * 60 + m) * 60 + s) * 1000000 + u = x"
  using assms by (simp add: algebra_simps)

lemma to_us_of_us: "to_us (of_us x tz) = x"
proof -
  have "to_us (of_us x tz) =
      (((x div 86400000000 * 24 + x div 3600000000 mod 24) * 60 + x div 60000000 mod 60) * 60
         + x div 1000000 mod 60) * 1000000 + x mod 1000000"
    by (simp add: to_us_def of_us_def)
  also have "\<dots> = x"
    by (rule recombine [OF split_mod(1) split_mod(2) split_mod(3)]) simp
  finally show ?thesis .
qed

lemma tzinfo_of_us: "tzinfo (of_us x tz) = tz"
  by (simp add: of_us_def)

lemma instant_from_db: "instant loc (from_db i) = i"
  unfolding instant_def from_db_def to_us_of_us tzinfo_of_us by simp

lemma instant_astimezone: "instant loc' (astimezone loc z dt) = instant loc dt"
  unfolding instant_def [of loc'] astimezone_def to_us_of_us tzinfo_of_us by simp

lemma dt_eq_aware:
  "tzinfo a \<noteq> None \<Longrightarrow> tzinfo b \<noteq> None \<Longrightarrow> dt_eq a b = (instant la a = instant lb b)"
  by (auto simp: dt_eq_def instant_def)

subsection \<open>Validator\<close>

lemma double_val_examples:
  "double_val 0x406E000000000000 = Fin 240"
  "double_val 0x3FE0000000000000 = Fin (1 / 2)"
  "double_val 0x4056800000000000 = Fin 90"
  "double_val 0x404E000000000000 = Fin 60"
  "double_val 0x4069000000000000 = Fin 200"
  "double_val 0x7FF8000000000000 = NaN"
  "double_val 0x408F400000000000 = Fin 1000"
  "double_val 0x40F8A88000000000 = Fin 101000"
  "double_val 0x40F8A89000000000 = Fin 101001"
  "double_val 0x41086A0000000000 = Fin 200000"
  "double_val 0 = Fin 0"
  by (simp_all add: double_val_def Let_def)

lemma decode_example_ssc: "decode_state_data (data (example_ssc eui t sds)) = Inr sds"
  by (simp add: example_ssc_def decode_encode_roundtrip)

lemmas calendar_defs =
  ymd2ord_def days_before_year_def days_before_month_def days_in_month_def is_leap_def

lemma instant_mk_datetime:
  "instant loc (mk_datetime y m d hh mm ss us (Some z)) =
     (((ymd2ord y m d * 24 + hh) * 60 + mm) * 60 + ss) * 1000000 + us - utcoffset z"
  by (simp add: instant_def to_us_def mk_datetime_def)

lemma ymd2ord_2024_3_1: "ymd2ord 2024 3 1 = 738946"
  by (simp add: calendar_defs Let_def upt_rec)


text \<open>
  Claim C9. The rules of \<open>create\<close> are tried in the order INVALID_VALUE, OVER_POWER,
  OVER_FREQUENCY, OVER_ENERGY, and the first one that matches decides the alarm: a
  reading with a value out of range raises INVALID_VALUE/MINOR whatever its power is;
  OVER_POWER/CRITICAL needs all four values in range; OVER_FREQUENCY/CRITICAL needs in
  addition a power of at most 95; OVER_ENERGY/MAJOR needs in addition a frequency of at
  most 65. A call that returns has inserted at most one alarm.
\<close>

theorem create_rule_order:
  fixes loc :: int and d :: "'r db" and ssc :: StreetlampStateCreate
    and sds :: StreetlampDeviceState
  assumes dec: "decode_state_data (data ssc) = Inr sds"
  defines "r1 \<equiv> out_of_range (double_val (voltage sds)) \<or> out_of_range (double_val (current sds))
                \<or> out_of_range (double_val (power' sds)) \<or> out_of_range (double_val (frequency sds))"
    and "r2 \<equiv> fl_gt (double_val (power' sds)) (Fin 95)"
    and "r3 \<equiv> fl_gt (double_val (frequency sds)) (Fin 65)"
    and "r4 \<equiv> \<exists>l. find_latest_by_dev_eui (streetlamp_states d) (info_dev_eui (device_info ssc))
                     = Inr (Some l) \<and>
                   fl_gt (fl_div (fl_sub (double_val (energy_in sds)) (dev_energy_in l))
                            (of_int (rate_hours (instant loc (ssc_time ssc)) (time l))))
                         (Fin 100000)"
  shows "(r1 \<longrightarrow> (\<exists>a. create loc ssc d = Inr (None, salarm_insert a d) \<and>
                       atype a = INVALID_VALUE \<and> severity a = MINOR)) \<and>
         (\<not> r1 \<and> r2 \<longrightarrow> (\<exists>a. create loc ssc d = Inr (None, salarm_insert a d) \<and>
                       atype a = OVER_POWER \<and> severity a = CRITICAL)) \<and>
         (\<not> r1 \<and> \<not> r2 \<and> r3 \<longrightarrow> (\<exists>a. create loc ssc d = Inr (None, salarm_insert a d) \<and>
                       atype a = OVER_FREQUENCY \<and> severity a = CRITICAL)) \<and>
         (\<not> r1 \<and> \<not> r2 \<and> \<not> r3 \<and> r4 \<longrightarrow>
                  (\<exists>a. create loc ssc d = Inr (None, salarm_insert a d) \<and>
                       atype a = OVER_ENERGY \<and> severity a = MAJOR)) \<and>
         (\<forall>res d'. create loc ssc d = Inr (res, d') \<longrightarrow>
            streetlamp_alarms d' = streetlamp_alarms d \<or>
            (\<exists>a. streetlamp_alarms d' = streetlamp_alarms d @ [a]))"
  unfolding r1_def r2_def r3_def r4_def
  by (auto simp: create_def new_reading_def dec Let_def salarm_insert_def make_alarm_def
      sstate_insert_def instant_astimezone split: sum.splits option.splits if_splits)

text \<open>
  Witness for C9: voltage NaN and power 200 give INVALID_VALUE/MINOR, not OVER_POWER.
\<close>

theorem create_rule_order_witness:
  "decode_state_data
     (data (example_ssc ''5058000000000001'' (mk_datetime 2024 3 1 5 0 0 0 (Some UTC))
        (example_sds 0x7FF8000000000000 0x4069000000000000 0x408F400000000000))) =
     Inr (example_sds 0x7FF8000000000000 0x4069000000000000 0x408F400000000000) \<and>
   double_val (voltage (example_sds 0x7FF8000000000000 0x4069000000000000 0x408F400000000000)) = NaN \<and>
   double_val (power' (example_sds 0x7FF8000000000000 0x4069000000000000 0x408F400000000000)) = Fin 200 \<and>
   (\<exists>a. create 0
          (example_ssc ''5058000000000001'' (mk_datetime 2024 3 1 5 0 0 0 (Some UTC))
             (example_sds 0x7FF8000000000000 0x4069000000000000 0x408F400000000000))
          empty_db = Inr (None, salarm_insert a empty_db) \<and>
        atype a = INVALID_VALUE \<and> severity a = MINOR)"
  using create_rule_order [OF decode_example_ssc, where loc = 0 and d = empty_db
        and sds = "example_sds 0x7FF8000000000000 0x4069000000000000 0x408F400000000000"
        and eui1 = "''5058000000000001''" and t1 = "mk_datetime 2024 3 1 5 0 0 0 (Some UTC)"]
  by (simp add: decode_example_ssc example_sds_def double_val_examples out_of_range_def)


lemma find_latest_single: "find_latest_by_dev_eui [r] (dev_eui r) = Inr (Some r)"
  by (simp add: find_latest_by_dev_eui_def scalar_one_or_none_def)











subsection \<open>Truncation of timestamps\<close>

lemma round_to_day_example:
  "round_to_day (mk_datetime 2024 3 1 5 0 0 0 (Some Santo_Domingo)) =
     mk_datetime 2024 3 1 0 0 0 0 None"
  by (simp add: round_to_day_def mk_datetime_def)

lemma round_to_week_example:
  "round_to_week (mk_datetime 2024 3 1 5 0 0 0 (Some Santo_Domingo)) =
     mk_datetime 2024 2 26 0 0 0 0 None"
  by (simp add: round_to_week_def round_to_day_def weekday_def mk_datetime_def
      calendar_defs Let_def upt_rec)

lemma round_to_month_example:
  "round_to_month (mk_datetime 2024 3 15 5 0 0 0 (Some Santo_Domingo)) =
     mk_datetime 2024 3 1 0 0 0 0 (Some Santo_Domingo)"
  by (simp add: round_to_month_def year_def month_def ord2ymd_def mk_datetime_def
      calendar_defs Let_def upt_rec)

text \<open>
  Claim C10. \<open>round_to_day\<close> and \<open>round_to_week\<close> return a naive datetime whatever
  the \<open>tzinfo\<close> of their argument, and \<open>round_to_hour\<close> keeps the \<open>tzinfo\<close> of its
  argument. So the daily producer (set by the hourly stage) and the weekly producer
  (set by the daily stage) are passed to \<open>update_producer\<close> as naive values, which the
  database reads in the local zone of the process, while the hourly producer, which
  \<open>create\<close> sets to the hour of \<open>ssc.time.astimezone(Santo_Domingo)\<close>, is aware.
\<close>

theorem rounding_tzinfo:
  "tzinfo (round_to_day dt) = None \<and> tzinfo (round_to_week dt) = None \<and>
   tzinfo (round_to_hour dt) = tzinfo dt \<and>
   map (\<lambda>(n, ts). (n, tzinfo ts)) (next_producers Hourly d t1) = [(stream_name Daily d, None)] \<and>
   map (\<lambda>(n, ts). (n, tzinfo ts)) (next_producers Daily d t1) =
     [(stream_name Weekly d, None), (stream_name Monthly d, Some Santo_Domingo)] \<and>
   tzinfo (round_to_hour (time (new_reading loc ssc sds))) = Some Santo_Domingo \<and>
   instant loc (round_to_day dt) = to_us (round_to_day dt) - loc"
  by (simp add: round_to_day_def round_to_week_def round_to_hour_def round_to_month_def
      mk_datetime_def astimezone_def tzinfo_of_us Let_def new_reading_def instant_def)

subsection \<open>Watermark store\<close>

lemma dt_eq_from_db: "dt_eq (from_db a) (from_db b) = (a = b)"
  by (simp add: dt_eq_def from_db_def tzinfo_of_us to_us_of_us)

lemma instant_convert: "instant loc' (convert_to_default_tz loc dt) = instant loc dt"
  by (simp add: convert_to_default_tz_def instant_astimezone)

lemma update_producer_ok:
  assumes "list_all watermark_ok rows"
    and "\<forall>r \<in> set rows. name r = n \<longrightarrow>
           (case consumer_ts r of None \<Rightarrow> True | Some c \<Rightarrow> c \<le> instant loc ts)"
  shows "list_all watermark_ok (update_producer loc rows n ts)"
  using assms
  by (auto simp: update_producer_def list_all_iff watermark_ok_def split: option.splits)

lemma update_producer_breaks:
  assumes "r \<in> set rows" "name r = n" "consumer_ts r = Some c" "instant loc ts < c"
  shows "\<not> list_all watermark_ok (update_producer loc rows n ts)"
proof -
  define f :: "StreamState \<Rightarrow> StreamState" where "f = (\<lambda>x. if name x = n then x\<lparr>producer_ts := Some (instant loc ts)\<rparr> else x)"
  have n: "n \<in> set (map name rows)"
    using assms(1,2) by auto
  have bad: "\<not> watermark_ok (f r)"
    using assms(2,3,4) by (simp add: watermark_ok_def f_def)
  have "f r \<in> set (map f rows)"
    using assms(1) by (simp only: set_map) (rule imageI)
  with bad have "\<not> list_all watermark_ok (map f rows)"
    unfolding list_all_iff by blast
  then show ?thesis
    unfolding update_producer_def f_def using n by (simp only: if_True not_False_eq_True)
qed

lemma update_consumer_ok:
  assumes "list_all watermark_ok rows"
    and "\<forall>r \<in> set rows. name r = n \<longrightarrow>
           (case producer_ts r of None \<Rightarrow> False | Some p \<Rightarrow> instant loc t \<le> p)"
  shows "list_all watermark_ok (update_consumer loc rows n (Some t))"
  using assms
  by (auto simp: update_consumer_def list_all_iff watermark_ok_def split: option.splits)

subsection \<open>Rollup Aggregator\<close>

lemma map_overwrite_same:
  "map producer_ts (filter (\<lambda>r. name r = n)
     (map (\<lambda>r. if name r = n then r\<lparr>producer_ts := v\<rparr> else r) rows)) =
   map (\<lambda>_. v) (filter (\<lambda>r. name r = n) rows)"
  by (induction rows) auto

lemma map_overwrite_other:
  "n' \<noteq> n \<Longrightarrow>
   map producer_ts (filter (\<lambda>r. name r = n')
     (map (\<lambda>r. if name r = n then r\<lparr>producer_ts := v\<rparr> else r) rows)) =
   map producer_ts (filter (\<lambda>r. name r = n') rows)"
  by (induction rows) auto

lemma update_producer_sets:
  "set (map producer_ts (filter (\<lambda>r. name r = n) (update_producer loc rows n ts))) =
     {Some (instant loc ts)}"
proof (cases "n \<in> set (map name rows)")
  case True
  then have ne: "filter (\<lambda>r. name r = n) rows \<noteq> []"
    by (auto simp: filter_empty_conv)
  have "set (map (\<lambda>_. Some (instant loc ts)) (filter (\<lambda>r. name r = n) rows)) =
      {Some (instant loc ts)}"
    using ne by (cases "filter (\<lambda>r. name r = n) rows") auto
  then show ?thesis
    using True by (simp only: update_producer_def if_True map_overwrite_same)
next
  case False
  then have "filter (\<lambda>r. name r = n) rows = []"
    by (auto simp: filter_empty_conv)
  then show ?thesis using False by (simp add: update_producer_def)
qed

lemma update_producer_other:
  assumes "n' \<noteq> n"
  shows "map producer_ts (filter (\<lambda>r. name r = n') (update_producer loc rows n ts)) =
   map producer_ts (filter (\<lambda>r. name r = n') rows)"
proof (cases "n \<in> set (map name rows)")
  case True
  then show ?thesis
    using map_overwrite_other [OF assms] by (simp only: update_producer_def if_True)
next
  case False
  then show ?thesis using assms by (simp add: update_producer_def)
qed

lemma update_consumer_producers:
  "map producer_ts (update_consumer loc rows n ts) = map producer_ts rows"
  "map name (update_consumer loc rows n ts) = map name rows"
  by (simp_all add: update_consumer_def comp_def if_distrib cong: if_cong)

lemma stream_names_differ:
  "stream_name Weekly s \<noteq> stream_name Monthly s'"
  "stream_name Hourly s \<noteq> stream_name Daily s'"
  by (simp_all add: stream_name_def)

lemma aggregate_device_pending:
  assumes "get_range env res (stream_name res s) s d = Inr (Some (t0, t1))"
    and "pull env res s t0 t1 (streetlamp_states d) (rollups d) = Inr (nr, ro)"
  shows "aggregate_device env res s d =
     Inr (nr, d\<lparr>rollups := (rollups d)(res := ro),
               stream_states :=
                 fold (\<lambda>(n, ts) rows. update_producer (local_offset env) rows n ts)
                   (next_producers res s t1)
                   (update_consumer (local_offset env) (stream_states d)
                      (stream_name res s) (Some t1))\<rparr>)"
  using assms by (simp add: aggregate_device_def Let_def)

lemma aggregate_device_skip:
  assumes "get_range env res (stream_name res s) s d = Inr None"
  shows "aggregate_device env res s d = Inr (0, d)"
  using assms by (simp add: aggregate_device_def Let_def)

lemma aggregate_device_pull_fails:
  assumes "get_range env res (stream_name res s) s d = Inr (Some (t0, t1))"
    and "pull env res s t0 t1 (streetlamp_states d) (rollups d) = Inl e"
  shows "aggregate_device env res s d = Inl e"
  using assms by (simp add: aggregate_device_def Let_def)

lemma weekday_round_to_week:
  "weekday (round_to_week dt) = 0"
  "ordinal (round_to_week dt) \<le> ordinal dt"
  "ordinal dt < ordinal (round_to_week dt) + 7"
  by (simp_all add: round_to_week_def round_to_day_def weekday_def Let_def) presburger+

lemma example_instants_sd:
  "instant 0 (mk_datetime 2024 3 1 4 0 0 0 (Some Santo_Domingo)) = 63844963200000000"
  "instant 0 (mk_datetime 2024 3 1 5 0 0 0 (Some Santo_Domingo)) = 63844966800000000"
  by (simp_all add: instant_mk_datetime ymd2ord_2024_3_1)

lemma convert_example:
  "convert_to_default_tz loc (from_db 63844963200000000) =
     mk_datetime 2024 3 1 4 0 0 0 (Some Santo_Domingo)"
  "convert_to_default_tz loc (from_db 63844966800000000) =
     mk_datetime 2024 3 1 5 0 0 0 (Some Santo_Domingo)"
  by (simp_all add: convert_to_default_tz_def astimezone_def instant_from_db of_us_def
      mk_datetime_def ymd2ord_2024_3_1)

lemma find_by_name_hd:
  "find_by_name (r # rows) (name r) = Some r"
  by (simp add: find_by_name_def)

lemma get_range_consumed:
  assumes "find_by_name (stream_states d) strname = Some r"
    and "producer_ts r = Some p" and "consumer_ts r = Some c"
  shows "get_range env res strname s d =
     (if c = p then Inr None
      else Inr (Some (convert_to_default_tz (local_offset env) (from_db c),
                      convert_to_default_tz (local_offset env) (from_db p))))"
  using assms by (simp add: get_range_def dt_eq_from_db Let_def)

lemma get_range_example:
  "get_range env res nm eui (example_db_pending eui nm tbl) =
     Inr (Some (mk_datetime 2024 3 1 4 0 0 0 (Some Santo_Domingo),
                mk_datetime 2024 3 1 5 0 0 0 (Some Santo_Domingo)))"
proof -
  let ?r = "\<lparr>name = nm,
          producer_ts = Some (instant 0 (mk_datetime 2024 3 1 5 0 0 0 (Some Santo_Domingo))),
          consumer_ts = Some (instant 0 (mk_datetime 2024 3 1 4 0 0 0 (Some Santo_Domingo)))\<rparr>"
  have f: "find_by_name (stream_states (example_db_pending eui nm tbl)) nm = Some ?r"
    using find_by_name_hd [of ?r "[]"] by (simp add: example_db_pending_def)
  have pr: "producer_ts ?r = Some 63844966800000000"
    and co: "consumer_ts ?r = Some 63844963200000000"
    by (simp_all add: example_instants_sd)
  show ?thesis
    unfolding get_range_consumed [OF f pr co] by (simp add: convert_example)
qed

text \<open>
  Claim C8. When a stage processes a device through \<open>t1\<close> (its range is pending and
  \<open>pull\<close> returns), the hourly stage leaves the device's daily stream with the
  producer \<open>round_to_day t1\<close>, the daily stage leaves the weekly stream with
  \<open>round_to_week t1\<close> and the monthly stream with \<open>round_to_month t1\<close>, and the weekly
  and monthly stages change no producer and add no stream. The three values are \<open>t1\<close>
  cut to the boundary: midnight of the day of \<open>t1\<close>; midnight of the Monday of its
  week; the first day of its month at midnight.
\<close>

theorem stage_sets_next_producers:
  fixes env :: "'r env" and d :: "'r db"
  assumes range: "get_range env res (stream_name res s) s d = Inr (Some (t0, t1))"
    and pull: "pull env res s t0 t1 (streetlamp_states d) (rollups d) = Inr (nr, ro)"
  shows "\<exists>d'. aggregate_device env res s d = Inr (nr, d') \<and>
     (case res of
        Hourly \<Rightarrow>
          producers_of d' (stream_name Daily s) =
            {Some (instant (local_offset env) (round_to_day t1))}
      | Daily \<Rightarrow>
          producers_of d' (stream_name Weekly s) =
            {Some (instant (local_offset env) (round_to_week t1))} \<and>
          producers_of d' (stream_name Monthly s) =
            {Some (instant (local_offset env) (round_to_month t1))}
      | _ \<Rightarrow>
          map producer_ts (stream_states d') = map producer_ts (stream_states d) \<and>
          map name (stream_states d') = map name (stream_states d)) \<and>
     ordinal (round_to_day t1) = ordinal t1 \<and> to_us (round_to_day t1) = ordinal t1 * 86400000000 \<and>
     weekday (round_to_week t1) = 0 \<and> ordinal (round_to_week t1) \<le> ordinal t1 \<and>
     ordinal t1 < ordinal (round_to_week t1) + 7 \<and>
     to_us (round_to_week t1) = ordinal (round_to_week t1) * 86400000000 \<and>
     round_to_month t1 = mk_datetime (year t1) (month t1) 1 0 0 0 0 (Some Santo_Domingo)"
proof -
  have trunc: "ordinal (round_to_day t1) = ordinal t1 \<and> to_us (round_to_day t1) = ordinal t1 * 86400000000 \<and>
     weekday (round_to_week t1) = 0 \<and> ordinal (round_to_week t1) \<le> ordinal t1 \<and>
     ordinal t1 < ordinal (round_to_week t1) + 7 \<and>
     to_us (round_to_week t1) = ordinal (round_to_week t1) * 86400000000 \<and>
     round_to_month t1 = mk_datetime (year t1) (month t1) 1 0 0 0 0 (Some Santo_Domingo)"
    using weekday_round_to_week [of t1]
    by (simp add: round_to_day_def round_to_month_def to_us_def round_to_week_def Let_def)
  define rows where "rows = update_consumer (local_offset env) (stream_states d)
      (stream_name res s) (Some t1)"
  define d' where "d' = d\<lparr>rollups := (rollups d)(res := ro),
      stream_states := fold (\<lambda>(n, ts) rows. update_producer (local_offset env) rows n ts)
         (next_producers res s t1) rows\<rparr>"
  have agg: "aggregate_device env res s d = Inr (nr, d')"
    unfolding d'_def rows_def by (rule aggregate_device_pending [OF range pull])
  have ss: "stream_states d' = fold (\<lambda>(n, ts) rows. update_producer (local_offset env) rows n ts)
         (next_producers res s t1) rows"
    by (simp add: d'_def)
  have "case res of
        Hourly \<Rightarrow>
          producers_of d' (stream_name Daily s) =
            {Some (instant (local_offset env) (round_to_day t1))}
      | Daily \<Rightarrow>
          producers_of d' (stream_name Weekly s) =
            {Some (instant (local_offset env) (round_to_week t1))} \<and>
          producers_of d' (stream_name Monthly s) =
            {Some (instant (local_offset env) (round_to_month t1))}
      | _ \<Rightarrow>
          map producer_ts (stream_states d') = map producer_ts (stream_states d) \<and>
          map name (stream_states d') = map name (stream_states d)"
  proof (cases res)
    case Hourly
    have "producers_of d' (stream_name Daily s) =
            {Some (instant (local_offset env) (round_to_day t1))}"
      unfolding producers_of_def ss Hourly next_producers.simps fold_simps prod.case
      by (rule update_producer_sets)
    then show ?thesis by (simp add: Hourly)
  next
    case Daily
    have m: "producers_of d' (stream_name Monthly s) =
            {Some (instant (local_offset env) (round_to_month t1))}"
      unfolding producers_of_def ss Daily next_producers.simps fold_simps prod.case
      by (rule update_producer_sets)
    have w: "producers_of d' (stream_name Weekly s) =
            {Some (instant (local_offset env) (round_to_week t1))}"
      unfolding producers_of_def ss Daily next_producers.simps fold_simps prod.case
        update_producer_other [OF stream_names_differ(1)]
      by (rule update_producer_sets)
    from m w show ?thesis by (simp add: Daily)
  next
    case Weekly
    show ?thesis
      by (simp add: Weekly ss rows_def update_consumer_producers)
  next
    case Monthly
    show ?thesis
      by (simp add: Monthly ss rows_def update_consumer_producers)
  qed
  with agg trunc show ?thesis by blast
qed

text \<open>
  Witness for C8: the hourly stage processes a device through 2024-03-01T05:00:00 and
  sets its daily producer to 2024-03-01T00:00:00.
\<close>

theorem stage_sets_next_producers_witness:
  "get_range example_env Hourly (stream_name Hourly ''5058000000000001'') ''5058000000000001''
      (example_db_pending ''5058000000000001'' (stream_name Hourly ''5058000000000001'') ()) =
     Inr (Some (mk_datetime 2024 3 1 4 0 0 0 (Some Santo_Domingo),
                mk_datetime 2024 3 1 5 0 0 0 (Some Santo_Domingo))) \<and>
   (\<exists>d'. aggregate_device example_env Hourly ''5058000000000001''
           (example_db_pending ''5058000000000001'' (stream_name Hourly ''5058000000000001'') ()) =
           Inr (1, d') \<and>
         producers_of d' (stream_name Daily ''5058000000000001'') =
           {Some (instant 0 (mk_datetime 2024 3 1 0 0 0 0 None))})"
proof -
  have p: "pull example_env Hourly ''5058000000000001''
      (mk_datetime 2024 3 1 4 0 0 0 (Some Santo_Domingo))
      (mk_datetime 2024 3 1 5 0 0 0 (Some Santo_Domingo))
      (streetlamp_states (example_db_pending ''5058000000000001''
          (stream_name Hourly ''5058000000000001'') ()))
      (rollups (example_db_pending ''5058000000000001''
          (stream_name Hourly ''5058000000000001'') ())) = Inr (1, ())"
    by (simp add: example_env_def)
  have "\<exists>d'. aggregate_device example_env Hourly ''5058000000000001''
           (example_db_pending ''5058000000000001'' (stream_name Hourly ''5058000000000001'') ()) =
           Inr (1, d') \<and>
         producers_of d' (stream_name Daily ''5058000000000001'') =
           {Some (instant (local_offset example_env)
              (round_to_day (mk_datetime 2024 3 1 5 0 0 0 (Some Santo_Domingo))))}"
    using stage_sets_next_producers [OF get_range_example p] by auto
  moreover have "local_offset example_env = 0"
    by (simp add: example_env_def)
  ultimately show ?thesis
    by (simp add: get_range_example round_to_day_example)
qed


lemma find_by_name_Cons:
  "find_by_name (r # rows) n =
     (if lower (name r) = lower n then Some r else find_by_name rows n)"
  by (simp add: find_by_name_def)

lemma lower_stream_name:
  "lower (stream_name res s) = lower (stream_name res' s') \<longleftrightarrow> res = res' \<and> lower s = lower s'"
  by (cases res; cases res') (simp_all add: stream_name_def lower_def lower_char_def)

lemma stream_name_eq:
  "stream_name res s = stream_name res' s' \<longleftrightarrow> res = res' \<and> s = s'"
  by (cases res; cases res') (simp_all add: stream_name_def)











subsection \<open>A second pass of a stage\<close>

lemma lower_example_case:
  "lower ''70b3d57ed0000001'' = lower ''70B3D57ED0000001''"
  "''70b3d57ed0000001'' \<noteq> ''70B3D57ED0000001''"
  by code_simp+

lemma first_pass_case_mismatch:
  "aggregate counting_env Hourly
     (example_db_pending ''70B3D57ED0000001'' (stream_name Hourly ''70b3d57ed0000001'') 0) =
   Inr (0,
     \<lparr>streetlamps = [''70B3D57ED0000001''], streetlamp_states = [], streetlamp_alarms = [],
      stream_states =
        [\<lparr>name = stream_name Hourly ''70b3d57ed0000001'',
          producer_ts = Some 63844966800000000, consumer_ts = Some 63844963200000000\<rparr>,
         \<lparr>name = stream_name Daily ''70B3D57ED0000001'',
          producer_ts = Some (instant 0 (mk_datetime 2024 3 1 0 0 0 0 None)),
          consumer_ts = None\<rparr>],
      rollups = (\<lambda>_. 0)(Hourly := 1)\<rparr>)"
  by (simp add: aggregate_def aggregate_device_def Let_def get_range_def example_db_pending_def
      find_by_name_Cons example_instants_sd dt_eq_from_db convert_example counting_env_def
      update_consumer_def update_producer_def lower_stream_name lower_example_case
      round_to_day_example stream_name_eq)

lemma second_pass_case_mismatch:
  "aggregate counting_env Hourly
     \<lparr>streetlamps = [''70B3D57ED0000001''], streetlamp_states = [], streetlamp_alarms = [],
      stream_states =
        [\<lparr>name = stream_name Hourly ''70b3d57ed0000001'',
          producer_ts = Some 63844966800000000, consumer_ts = Some 63844963200000000\<rparr>,
         \<lparr>name = stream_name Daily ''70B3D57ED0000001'',
          producer_ts = Some (instant 0 (mk_datetime 2024 3 1 0 0 0 0 None)),
          consumer_ts = None\<rparr>],
      rollups = (\<lambda>_. 0)(Hourly := 1)\<rparr> =
   Inr (0,
     \<lparr>streetlamps = [''70B3D57ED0000001''], streetlamp_states = [], streetlamp_alarms = [],
      stream_states =
        [\<lparr>name = stream_name Hourly ''70b3d57ed0000001'',
          producer_ts = Some 63844966800000000, consumer_ts = Some 63844963200000000\<rparr>,
         \<lparr>name = stream_name Daily ''70B3D57ED0000001'',
          producer_ts = Some (instant 0 (mk_datetime 2024 3 1 0 0 0 0 None)),
          consumer_ts = None\<rparr>],
      rollups = (\<lambda>_. 0)(Hourly := 2)\<rparr>)"
  by (simp add: aggregate_def aggregate_device_def Let_def get_range_def
      find_by_name_Cons dt_eq_from_db convert_example counting_env_def
      update_consumer_def update_producer_def lower_stream_name lower_example_case
      round_to_day_example stream_name_eq numeral_2_eq_2)

text \<open>
  Claim C7, evaluated where the code departs from it. The registry holds the device
  as \<open>70B3D57ED0000001\<close>; its hourly stream was created by the ingestion under the
  name the messages carry, \<open>streetlamp:state:hourly:70b3d57ed0000001\<close>.
  \<open>find_by_name\<close> compares names in lower case and finds the row, so the first pass
  has a range and executes \<open>pull\<close>; \<open>update_consumer\<close> compares names exactly and
  updates no row, so the consumer timestamp stays where it was. The second pass, on
  the database the first one left, finds the same range and executes \<open>pull\<close> again:
  it is not skipped.
\<close>

theorem second_pass_pulls_again:
  "(\<exists>d1 d2.
      aggregate counting_env Hourly
        (example_db_pending ''70B3D57ED0000001'' (stream_name Hourly ''70b3d57ed0000001'') 0) =
        Inr (0, d1) \<and>
      aggregate counting_env Hourly d1 = Inr (0, d2) \<and>
      rollups d1 Hourly = 1 \<and> rollups d2 Hourly = 2 \<and>
      map consumer_ts (stream_states d1) = [Some 63844963200000000, None] \<and>
      map producer_ts (stream_states d1) =
        [Some 63844966800000000, Some (instant 0 (mk_datetime 2024 3 1 0 0 0 0 None))] \<and>
      get_range counting_env Hourly (stream_name Hourly ''70B3D57ED0000001'')
        ''70B3D57ED0000001'' d1 =
        Inr (Some (mk_datetime 2024 3 1 4 0 0 0 (Some Santo_Domingo),
                   mk_datetime 2024 3 1 5 0 0 0 (Some Santo_Domingo))))"
  unfolding first_pass_case_mismatch
  apply (intro exI conjI)
        apply (rule refl)
       apply (rule second_pass_case_mismatch)
      apply simp_all
  apply (simp add: get_range_def find_by_name_Cons lower_stream_name lower_example_case
      dt_eq_from_db convert_example counting_env_def Let_def)
  done

end
